theory Spec2Isabelle
  imports Complex_Main "HOL-Library.Sublist"
begin

section \<open>Python strings\<close>

text \<open>
  Text is modelled as \<^typ>\<open>string\<close> over ASCII. \<open>str.lower()\<close> maps \<open>A..Z\<close> to
  \<open>a..z\<close> and leaves every other character alone; \<open>sub in s\<close> on strings is
  contiguous containment (\<^const>\<open>sublist\<close>); \<open>x in xs\<close> on a list is membership.
\<close>

definition lower_char :: "char \<Rightarrow> char" where
  "lower_char c =
     (let n = (of_char c :: nat) in if 65 \<le> n \<and> n \<le> 90 then char_of (n + 32) else c)"

definition lower :: "string \<Rightarrow> string" where
  "lower s = map lower_char s"

text \<open>\<open>any(keyword in s for keyword in keywords)\<close>\<close>

definition any_in :: "string list \<Rightarrow> string \<Rightarrow> bool" where
  "any_in keywords s = list_ex (\<lambda>keyword. sublist keyword s) keywords"

text \<open>\<open>sep.join(xs)\<close>\<close>

fun join :: "string \<Rightarrow> string list \<Rightarrow> string" where
  "join sep [] = []"
| "join sep [x] = x"
| "join sep (x # y # ys) = x @ sep @ join sep (y # ys)"

text \<open>
  \<open>str.strip()\<close> and \<open>str.split()\<close>: the white space of ASCII is the characters
  9 to 13 and 28 to 32.
\<close>

definition is_space :: "char \<Rightarrow> bool" where
  "is_space c \<longleftrightarrow> (let n = (of_char c :: nat) in (9 \<le> n \<and> n \<le> 13) \<or> (28 \<le> n \<and> n \<le> 32))"

definition strip :: "string \<Rightarrow> string" where
  "strip s = rev (dropWhile is_space (rev (dropWhile is_space s)))"

fun split_words :: "string \<Rightarrow> string \<Rightarrow> string list" where
  "split_words word [] = (if word = [] then [] else [word])"
| "split_words word (c # cs) =
     (if is_space c then (if word = [] then split_words [] cs else word # split_words [] cs)
      else split_words (word @ [c]) cs)"

definition py_split :: "string \<Rightarrow> string list" where
  "py_split s = split_words [] s"

text \<open>The single quote of the selectors.\<close>

definition quote :: string where
  "quote = [CHR 0x27]"

section \<open>Form descriptors\<close>

text \<open>
  The dictionaries produced by the page-extraction script of \<open>browser_tool.py\<close>. Every
  key of an input descriptor is a string there (\<open>input.name || ''\<close> and so on); a key
  that a caller leaves out (\<open>nearby_text\<close> on forms reached through a link) reads as
  the empty string, the default of \<open>dict.get\<close>.
\<close>

record input_field =
  f_name :: string
  f_type :: string
  f_required :: bool
  f_placeholder :: string
  f_value :: string

record button =
  b_text :: string
  b_type :: string

record form =
  form_index :: nat
  form_action :: string
  form_method :: string
  form_inputs :: "input_field list"
  form_buttons :: "button list"
  form_classes :: string
  form_text :: string
  nearby_text :: string

section \<open>\<open>_classify_form_purpose\<close>\<close>

definition registration_keywords :: "string list" where
  "registration_keywords =
     [''sign up'', ''register'', ''create account'', ''join'', ''get started'',
      ''create your account'', ''become a member'', ''start your journey'',
      ''join us'', ''create profile'', ''new account'', ''registration'',
      ''create a password'', ''create password'', ''birthdate'', ''birth date'',
      ''date of birth'', ''age verification'']"

definition login_keywords :: "string list" where
  "login_keywords =
     [''sign in'', ''login'', ''log in'', ''enter'', ''access account'',
      ''welcome back'', ''member login'', ''user login'', ''enter password'']"

definition text_lower :: "form \<Rightarrow> string" where
  "text_lower fm = lower (form_text fm @ '' '' @ nearby_text fm)"

definition input_types :: "form \<Rightarrow> string list" where
  "input_types fm = map (\<lambda>inp. lower (f_type inp)) (form_inputs fm)"

definition input_names :: "form \<Rightarrow> string list" where
  "input_names fm = map (\<lambda>inp. lower (f_name inp)) (form_inputs fm)"

definition input_placeholders :: "form \<Rightarrow> string list" where
  "input_placeholders fm = map (\<lambda>inp. lower (f_placeholder inp)) (form_inputs fm)"

definition all_input_text :: "form \<Rightarrow> string" where
  "all_input_text fm = lower (join '' '' (input_names fm @ input_placeholders fm))"

text \<open>\<open>any(registration_indicators)\<close>, the ten tests in the order of the source.\<close>

definition registration_indicators :: "form \<Rightarrow> bool list" where
  "registration_indicators fm =
     [sublist ''confirm'' (all_input_text fm),
      sublist ''first'' (all_input_text fm),
      sublist ''last'' (all_input_text fm),
      sublist ''name'' (all_input_text fm),
      sublist ''phone'' (all_input_text fm),
      sublist ''birth'' (all_input_text fm),
      ''date'' \<in> set (input_types fm),
      sublist ''agree'' (text_lower fm),
      sublist ''terms'' (text_lower fm),
      length (form_inputs fm) > 2]"

definition classify_form_purpose :: "form \<Rightarrow> string" where
  "classify_form_purpose fm =
     (if any_in registration_keywords (text_lower fm) then ''registration''
      else if any_in login_keywords (text_lower fm) then ''login''
      else if any_in [''contact'', ''message'', ''email us''] (text_lower fm) then ''contact''
      else if any_in [''search''] (text_lower fm) then ''search''
      else if any_in [''subscribe'', ''newsletter''] (text_lower fm) then ''subscription''
      else if list_ex (any_in [''create a password'', ''create password'']) (input_placeholders fm)
        then ''registration''
      else if ''password'' \<in> set (input_types fm)
              \<and> (''email'' \<in> set (input_types fm) \<or> sublist ''email'' (all_input_text fm))
        then (if list_ex id (registration_indicators fm) then ''registration'' else ''login'')
      else if ''email'' \<in> set (input_types fm) \<and> ''password'' \<notin> set (input_types fm)
              \<and> any_in [''subscribe'', ''newsletter'', ''updates''] (text_lower fm)
        then ''subscription''
      else ''unknown'')"

section \<open>Preconditions and indicators, read field by field\<close>

text \<open>
  Rules 2 to 5 of the classifier: one of the five keyword tests on the text, or the
  test of the placeholders for a create-password phrase. Any of them decides the
  purpose before the field types are looked at.
\<close>

definition keyword_rule_fires :: "form \<Rightarrow> bool" where
  "keyword_rule_fires fm \<longleftrightarrow>
     any_in registration_keywords (text_lower fm)
     \<or> any_in login_keywords (text_lower fm)
     \<or> any_in [''contact'', ''message'', ''email us''] (text_lower fm)
     \<or> any_in [''search''] (text_lower fm)
     \<or> any_in [''subscribe'', ''newsletter''] (text_lower fm)
     \<or> (\<exists>inp\<in>set (form_inputs fm).
          any_in [''create a password'', ''create password''] (lower (f_placeholder inp)))"

definition has_password_and_email :: "form \<Rightarrow> bool" where
  "has_password_and_email fm \<longleftrightarrow>
     (\<exists>inp\<in>set (form_inputs fm). lower (f_type inp) = ''password'')
     \<and> ((\<exists>inp\<in>set (form_inputs fm). lower (f_type inp) = ''email'')
        \<or> (\<exists>inp\<in>set (form_inputs fm).
             sublist ''email'' (lower (f_name inp)) \<or> sublist ''email'' (lower (f_placeholder inp))))"

definition mentions :: "string \<Rightarrow> form \<Rightarrow> bool" where
  "mentions k fm \<longleftrightarrow>
     (\<exists>inp\<in>set (form_inputs fm).
        sublist k (lower (f_name inp)) \<or> sublist k (lower (f_placeholder inp)))"

definition spec_registration_indicator :: "form \<Rightarrow> bool" where
  "spec_registration_indicator fm \<longleftrightarrow>
     mentions ''confirm'' fm
     \<or> mentions ''first'' fm \<or> mentions ''last'' fm \<or> mentions ''name'' fm
     \<or> mentions ''phone'' fm
     \<or> mentions ''birth'' fm \<or> (\<exists>inp\<in>set (form_inputs fm). lower (f_type inp) = ''date'')
     \<or> sublist ''agree'' (text_lower fm) \<or> sublist ''terms'' (text_lower fm)
     \<or> length (form_inputs fm) > 2"

text \<open>A keyword of another purpose (login, contact, search, subscription) in the text.\<close>

definition other_purpose_keyword :: "form \<Rightarrow> bool" where
  "other_purpose_keyword fm \<longleftrightarrow>
     any_in login_keywords (text_lower fm)
     \<or> any_in [''contact'', ''message'', ''email us''] (text_lower fm)
     \<or> any_in [''search''] (text_lower fm)
     \<or> any_in [''subscribe'', ''newsletter''] (text_lower fm)"

section \<open>Concrete forms\<close>

definition mk_input :: "string \<Rightarrow> string \<Rightarrow> string \<Rightarrow> input_field" where
  "mk_input n t p =
     \<lparr>f_name = n, f_type = t, f_required = False, f_placeholder = p, f_value = ''''\<rparr>"

definition mk_form :: "string \<Rightarrow> input_field list \<Rightarrow> form" where
  "mk_form txt ins =
     \<lparr>form_index = 1, form_action = '''', form_method = ''post'', form_inputs = ins,
      form_buttons = [], form_classes = '''', form_text = txt, nearby_text = ''''\<rparr>"

text \<open>A change-password form: a password and its confirmation, no email, no text.\<close>

definition change_password_form :: form where
  "change_password_form =
     mk_form '''' [mk_input ''password'' ''password'' '''',
                   mk_input ''confirm_password'' ''password'' '''']"

text \<open>The sign-up form of the end-to-end scenario.\<close>

definition signup_form :: form where
  "signup_form =
     mk_form '''' [mk_input ''password'' ''password'' '''',
                   mk_input ''confirm_password'' ''password'' '''',
                   mk_input ''email'' ''email'' '''']"

text \<open>Email and password only.\<close>

definition plain_login_form :: form where
  "plain_login_form =
     mk_form '''' [mk_input ''email'' ''email'' '''', mk_input ''pw'' ''password'' '''']"

text \<open>Three fields, one of them a name, under the heading \<open>Login\<close>.\<close>

definition login_titled_form :: form where
  "login_titled_form =
     mk_form ''Login'' [mk_input ''email'' ''email'' '''', mk_input ''pw'' ''password'' '''',
                        mk_input ''name'' ''text'' '''']"

section \<open>\<open>_match_field_to_data\<close>\<close>

text \<open>
  The data set is a dictionary from slot names to strings; \<open>test_data.get(k)\<close> is the
  lookup \<open>test_data k\<close>, with \<open>None\<close> for a missing key. The branches are those of the
  \<open>if\<close>/\<open>elif\<close> chain, in its order.
\<close>

definition match_field_to_data ::
  "string \<Rightarrow> string \<Rightarrow> string \<Rightarrow> (string \<rightharpoonup> string) \<Rightarrow> string option" where
  "match_field_to_data field_name field_type placeholder test_data =
     (let field_hints = lower (field_name @ '' '' @ field_type @ '' '' @ placeholder) in
      if any_in [''email'', ''e-mail''] field_hints then test_data ''email''
      else if any_in [''password'', ''pass''] field_hints then
        (if sublist ''confirm'' field_hints \<or> sublist ''repeat'' field_hints
         then test_data ''password_confirm''
         else test_data ''password'')
      else if any_in [''username'', ''user'', ''login''] field_hints then test_data ''username''
      else if any_in [''first'', ''fname''] field_hints then test_data ''first_name''
      else if any_in [''last'', ''lname'', ''surname''] field_hints then test_data ''last_name''
      else if any_in [''name''] field_hints \<and> \<not> sublist ''user'' field_hints
        then test_data ''name''
      else if any_in [''phone'', ''tel''] field_hints then test_data ''phone''
      else if any_in [''address''] field_hints then test_data ''address''
      else if any_in [''city''] field_hints then test_data ''city''
      else if any_in [''country''] field_hints then test_data ''country''
      else if any_in [''company'', ''organization''] field_hints then test_data ''company''
      else if any_in [''age''] field_hints then test_data ''age''
      else if any_in [''zip'', ''postal''] field_hints then test_data ''zip''
      else if field_type = ''checkbox'' then None
      else if field_type = ''text'' \<and> field_name = [] then Some ''Test input''
      else None)"

section \<open>Test data\<close>

text \<open>
  A persona is one of the dictionaries of \<open>_create_user_personas\<close>. The generators
  read the clock and the random number generator: the model takes what they answer as
  arguments, \<open>now\<close> for the float of \<open>time.time()\<close> (a rational number of seconds),
  \<open>random_suffix\<close> for the six characters of
  \<open>''.join(random.choices(string.ascii_lowercase + string.digits, k=6))\<close>, and one
  natural number for each \<open>random.choice\<close>, reduced to an index of the sequence. A data
  set is the list of its items in the order of the dictionary literal, read with
  \<^const>\<open>map_of\<close>.
\<close>

record persona =
  p_name :: string
  email_prefix :: string
  first_name :: string
  last_name :: string
  age :: string
  phone :: string
  address :: string
  city :: string
  country :: string
  company :: string
  behavior :: string

text \<open>\<open>int(x)\<close> on a float: truncation towards zero.\<close>

definition py_int :: "rat \<Rightarrow> int" where
  "py_int x = (if 0 \<le> x then \<lfloor>x\<rfloor> else \<lceil>x\<rceil>)"

text \<open>\<open>str(n)\<close> on an integer: decimal digits, a minus sign when negative.\<close>

definition digit_char :: "int \<Rightarrow> char" where
  "digit_char d = char_of (48 + d)"

function str_digits :: "int \<Rightarrow> string" where
  "str_digits n =
     (if n < 10 then [digit_char n] else str_digits (n div 10) @ [digit_char (n mod 10)])"
  by pat_completeness auto
termination
  by (relation "measure nat") auto

declare str_digits.simps [simp del]

definition str_int :: "int \<Rightarrow> string" where
  "str_int i = (if i < 0 then ''-'' @ str_digits (- i) else str_digits i)"

definition generate_test_data :: "rat \<Rightarrow> string \<Rightarrow> persona \<Rightarrow> (string \<times> string) list" where
  "generate_test_data now random_suffix persona =
     (let timestamp = py_int now in
      [(''email'', email_prefix persona @ ''.'' @ str_int timestamp @ ''.'' @ random_suffix
                    @ ''@testmail.com''),
       (''username'', email_prefix persona @ ''_'' @ random_suffix),
       (''password'', ''TestPass123!@#''),
       (''password_confirm'', ''TestPass123!@#''),
       (''first_name'', first_name persona),
       (''last_name'', last_name persona),
       (''name'', first_name persona @ '' '' @ last_name persona),
       (''full_name'', first_name persona @ '' '' @ last_name persona),
       (''age'', age persona),
       (''phone'', phone persona),
       (''address'', address persona),
       (''city'', city persona),
       (''country'', country persona),
       (''company'', company persona),
       (''zip'', ''12345''),
       (''postal_code'', ''12345''),
       (''state'', ''NY''),
       (''region'', ''New York'')])"

definition generate_contact_data :: "rat \<Rightarrow> (string \<times> string) list" where
  "generate_contact_data now =
     [(''name'', ''Test User''),
      (''email'', ''testcontact.'' @ str_int (py_int now) @ ''@example.com''),
      (''subject'', ''Test inquiry from automated testing''),
      (''message'',
       ''This is a test message generated by automated testing system. Please ignore.''),
      (''phone'', ''+1234567890''),
      (''company'', ''Test Company'')]"

definition search_terms :: "string list" where
  "search_terms = [''test'', ''example'', ''demo'', ''sample'', ''product'']"

definition random_choice :: "nat \<Rightarrow> 'a list \<Rightarrow> 'a" where
  "random_choice r xs = xs ! (r mod length xs)"

definition generate_search_data :: "nat \<Rightarrow> nat \<Rightarrow> nat \<Rightarrow> (string \<times> string) list" where
  "generate_search_data r1 r2 r3 =
     [(''search'', random_choice r1 search_terms),
      (''query'', random_choice r2 search_terms),
      (''q'', random_choice r3 search_terms)]"

definition generate_subscription_data :: "rat \<Rightarrow> (string \<times> string) list" where
  "generate_subscription_data now =
     [(''email'', ''testsub.'' @ str_int (py_int now) @ ''@example.com''),
      (''newsletter'', ''true'')]"

text \<open>What \<open>random.choices\<close> over the 36 characters can return for \<open>k=6\<close>.\<close>

definition ascii_lowercase :: string where
  "ascii_lowercase = ''abcdefghijklmnopqrstuvwxyz''"

definition digits :: string where
  "digits = ''0123456789''"

definition valid_suffix :: "string \<Rightarrow> bool" where
  "valid_suffix s \<longleftrightarrow> length s = 6 \<and> list_all (\<lambda>c. c \<in> set (ascii_lowercase @ digits)) s"

definition regular_user :: persona where
  "regular_user =
     \<lparr>p_name = ''regular_user'', email_prefix = ''testuser'', first_name = ''John'',
      last_name = ''Doe'', age = ''25'', phone = ''+1234567890'', address = ''123 Main St'',
      city = ''New York'', country = ''USA'', company = ''Test Corp'',
      behavior = ''cautious''\<rparr>"

text \<open>
  The data set of the persona \<open>regular_user\<close>, generated with the clock at
  1730714400.2 seconds and the random suffix \<open>ab12cd\<close>.
\<close>

definition regular_user_data :: "(string \<times> string) list" where
  "regular_user_data = generate_test_data (17307144002/10) ''ab12cd'' regular_user"

section \<open>\<open>_fill_form_intelligently\<close>\<close>

text \<open>
  The function takes the form as a dictionary of any values, and reads each input
  descriptor with \<open>input_field.get(key, default).lower()\<close>: a key that is absent reads
  as the default, a string is lowered, and any other value has no \<open>lower\<close>, so the read
  raises \<open>AttributeError\<close>. A descriptor is the dictionary itself; the descriptors
  that the extraction scripts build hold strings under the three keys read here.
\<close>

datatype pyval = PStr string | PNone | PBool bool | PInt int

type_synonym descriptor = "string \<rightharpoonup> pyval"

definition type_name :: "pyval \<Rightarrow> string" where
  "type_name v =
     (case v of PStr s \<Rightarrow> ''str'' | PNone \<Rightarrow> ''NoneType'' | PBool b \<Rightarrow> ''bool''
      | PInt n \<Rightarrow> ''int'')"

definition attribute_error :: "pyval \<Rightarrow> string" where
  "attribute_error v =
     quote @ type_name v @ quote @ '' object has no attribute '' @ quote @ ''lower'' @ quote"

definition get_lower :: "descriptor \<Rightarrow> string \<Rightarrow> string \<Rightarrow> string + string" where
  "get_lower input_field key dflt =
     (case input_field key of
        None \<Rightarrow> Inr (lower dflt)
      | Some (PStr s) \<Rightarrow> Inr (lower s)
      | Some v \<Rightarrow> Inl (attribute_error v))"

definition descriptor_of :: "input_field \<Rightarrow> descriptor" where
  "descriptor_of inp =
     [''name'' \<mapsto> PStr (f_name inp), ''type'' \<mapsto> PStr (f_type inp),
      ''required'' \<mapsto> PBool (f_required inp), ''placeholder'' \<mapsto> PStr (f_placeholder inp),
      ''value'' \<mapsto> PStr (f_value inp)]"

text \<open>
  What the browser does when the loop asks it to fill one field: \<open>query_selector\<close>
  raises, finds no element, or finds one on which \<open>fill\<close> raises or succeeds. The
  strings are the texts of the exceptions. The page is a function of the position of the
  field in the form, the selector and the value, so that it may answer each call of one
  run differently.
\<close>

datatype browser_outcome = QueryRaises string | NoElement | FillRaises string | Filled

text \<open>
  An entry of the \<open>errors\<close> list: \<open>FieldError field_name e\<close> for the message that the
  inner handler builds from the field's name and the exception, \<open>GeneralError e\<close> for
  the message that the outer handler builds from the exception.
\<close>

datatype fill_error = FieldError string string | GeneralError string

record filled_field =
  ff_field :: string
  ff_type :: string
  ff_value :: string

record fill_result =
  fr_success :: bool
  fr_filled_fields :: "filled_field list"
  fr_errors :: "fill_error list"

text \<open>
  The selector is built after the three reads, so that a name that is present is a
  string; \<open>not input_field.get('name')\<close> holds for an absent and for an empty name.
\<close>

definition field_selector :: "descriptor \<Rightarrow> string \<Rightarrow> string" where
  "field_selector input_field field_type =
     (case input_field ''name'' of
        Some (PStr n) \<Rightarrow>
          if n = [] then ''input[type='' @ quote @ field_type @ quote @ '']''
          else ''input[name='' @ quote @ n @ quote @ '']''
      | _ \<Rightarrow> ''input[type='' @ quote @ field_type @ quote @ '']'')"

definition value_preview :: "string \<Rightarrow> string" where
  "value_preview v = (if length v > 20 then take 20 v @ ''...'' else v)"

text \<open>
  The loop over the inputs, with the two lists it appends to. A value that is \<open>None\<close> or
  empty is falsy and the field is passed over. An exception of the browser is caught by
  the inner handler; an exception of a read leaves the loop (\<open>Inl\<close>).
\<close>

fun fill_inputs ::
  "(nat \<Rightarrow> string \<Rightarrow> string \<Rightarrow> browser_outcome) \<Rightarrow> (string \<rightharpoonup> string) \<Rightarrow> nat
   \<Rightarrow> descriptor list \<Rightarrow> filled_field list \<Rightarrow> fill_error list
   \<Rightarrow> string + filled_field list \<times> fill_error list" where
  "fill_inputs page test_data i [] filled_fields errors = Inr (filled_fields, errors)"
| "fill_inputs page test_data i (input_field # rest) filled_fields errors =
     (case get_lower input_field ''name'' '''' of
        Inl e \<Rightarrow> Inl e
      | Inr field_name \<Rightarrow>
     (case get_lower input_field ''type'' ''text'' of
        Inl e \<Rightarrow> Inl e
      | Inr field_type \<Rightarrow>
     (case get_lower input_field ''placeholder'' '''' of
        Inl e \<Rightarrow> Inl e
      | Inr placeholder \<Rightarrow>
     (case match_field_to_data field_name field_type placeholder test_data of
        None \<Rightarrow> fill_inputs page test_data (Suc i) rest filled_fields errors
      | Some v \<Rightarrow>
          if v = [] then fill_inputs page test_data (Suc i) rest filled_fields errors
          else (case page i (field_selector input_field field_type) v of
                  QueryRaises e \<Rightarrow>
                    fill_inputs page test_data (Suc i) rest filled_fields
                      (errors @ [FieldError field_name e])
                | NoElement \<Rightarrow>
                    fill_inputs page test_data (Suc i) rest filled_fields errors
                | FillRaises e \<Rightarrow>
                    fill_inputs page test_data (Suc i) rest filled_fields
                      (errors @ [FieldError field_name e])
                | Filled \<Rightarrow>
                    fill_inputs page test_data (Suc i) rest
                      (filled_fields @
                         [\<lparr>ff_field = field_name, ff_type = field_type,
                           ff_value = value_preview v\<rparr>])
                      errors)))))"

text \<open>
  The function: the loop inside the outer \<open>try\<close>, whose handler returns the record of
  general failure, with no filled field and the one general error. The argument
  \<open>inputs\<close> is the list under the key \<open>inputs\<close> of the form.
\<close>

definition fill_form_intelligently ::
  "(nat \<Rightarrow> string \<Rightarrow> string \<Rightarrow> browser_outcome) \<Rightarrow> descriptor list \<Rightarrow> (string \<rightharpoonup> string)
   \<Rightarrow> fill_result" where
  "fill_form_intelligently page inputs test_data =
     (case fill_inputs page test_data 0 inputs [] [] of
        Inr (filled_fields, errors) \<Rightarrow>
          \<lparr>fr_success = length filled_fields > 0, fr_filled_fields = filled_fields,
           fr_errors = errors\<rparr>
      | Inl e \<Rightarrow>
          \<lparr>fr_success = False, fr_filled_fields = [], fr_errors = [GeneralError e]\<rparr>)"

text \<open>
  For stating what the loop does: what happens to one field taken alone, and the list of
  these attempts over the inputs of a form.
\<close>

datatype field_attempt =
  ReadRaises string | Skipped | NotFound | Raised fill_error | FilledOk filled_field

definition field_attempt ::
  "(nat \<Rightarrow> string \<Rightarrow> string \<Rightarrow> browser_outcome) \<Rightarrow> (string \<rightharpoonup> string) \<Rightarrow> nat
   \<Rightarrow> descriptor \<Rightarrow> field_attempt" where
  "field_attempt page test_data i input_field =
     (case get_lower input_field ''name'' '''' of
        Inl e \<Rightarrow> ReadRaises e
      | Inr field_name \<Rightarrow>
     (case get_lower input_field ''type'' ''text'' of
        Inl e \<Rightarrow> ReadRaises e
      | Inr field_type \<Rightarrow>
     (case get_lower input_field ''placeholder'' '''' of
        Inl e \<Rightarrow> ReadRaises e
      | Inr placeholder \<Rightarrow>
     (case match_field_to_data field_name field_type placeholder test_data of
        None \<Rightarrow> Skipped
      | Some v \<Rightarrow>
          if v = [] then Skipped
          else (case page i (field_selector input_field field_type) v of
                  QueryRaises e \<Rightarrow> Raised (FieldError field_name e)
                | NoElement \<Rightarrow> NotFound
                | FillRaises e \<Rightarrow> Raised (FieldError field_name e)
                | Filled \<Rightarrow>
                    FilledOk \<lparr>ff_field = field_name, ff_type = field_type,
                              ff_value = value_preview v\<rparr>)))))"

definition field_attempts ::
  "(nat \<Rightarrow> string \<Rightarrow> string \<Rightarrow> browser_outcome) \<Rightarrow> (string \<rightharpoonup> string) \<Rightarrow> nat
   \<Rightarrow> descriptor list \<Rightarrow> field_attempt list" where
  "field_attempts page test_data i inps =
     map (\<lambda>(k, inp). field_attempt page test_data k inp) (List.enumerate i inps)"

fun filled_of :: "field_attempt \<Rightarrow> filled_field option" where
  "filled_of (FilledOk f) = Some f"
| "filled_of _ = None"

fun error_of :: "field_attempt \<Rightarrow> fill_error option" where
  "error_of (Raised e) = Some e"
| "error_of _ = None"

fun read_error_of :: "field_attempt \<Rightarrow> string option" where
  "read_error_of (ReadRaises e) = Some e"
| "read_error_of _ = None"

text \<open>A page on which the second field cannot be filled.\<close>

definition flaky_page :: "nat \<Rightarrow> string \<Rightarrow> string \<Rightarrow> browser_outcome" where
  "flaky_page i selector v = (if i = 1 then FillRaises ''Timeout 30000ms exceeded'' else Filled)"

text \<open>
  The inputs of the sign-up form, and the same list with a descriptor whose name is
  \<open>None\<close> put before the email field.
\<close>

definition signup_inputs :: "descriptor list" where
  "signup_inputs = map descriptor_of (form_inputs signup_form)"

definition malformed_inputs :: "descriptor list" where
  "malformed_inputs =
     [descriptor_of (mk_input ''password'' ''password'' ''''),
      descriptor_of (mk_input ''confirm_password'' ''password'' ''''),
      [''name'' \<mapsto> PNone, ''type'' \<mapsto> PStr ''text''],
      descriptor_of (mk_input ''email'' ''email'' '''')]"

section \<open>Trigger resolution: the click loop\<close>

text \<open>
  The loop nest that \<open>_search_for_auth_links\<close> and \<open>_attempt_registration\<close> run
  over their candidate selectors. An element is what its calls answer when the loop
  examines it: \<open>is_visible\<close> and \<open>is_enabled\<close> return a truth value or raise
  (\<open>None\<close>), \<open>scroll_into_view\<close> says that the scroll and the wait after it return,
  \<open>is_visible_after_scroll\<close> is the second visibility query, and the three last
  fields say whether \<open>click(timeout=5000)\<close>, \<open>click(force=True, timeout=5000)\<close> and
  the scripted \<open>el.click()\<close> return or raise. The page answers
  \<open>query_selector_all\<close> with a list of elements or raises (\<open>None\<close>); it is a function
  of the position of the selector in the candidate list and of the selector.
\<close>

datatype click_strategy = Normal | Forced | Scripted

record element =
  is_visible :: "bool option"
  is_enabled :: "bool option"
  scroll_into_view :: bool
  is_visible_after_scroll :: "bool option"
  click :: bool
  click_force :: bool
  evaluate_click :: bool

definition visible_after_retry :: "element \<Rightarrow> bool \<Rightarrow> bool" where
  "visible_after_retry el visible =
     (if \<not> visible then
        (if scroll_into_view el then
           (case is_visible_after_scroll el of Some v \<Rightarrow> v | None \<Rightarrow> visible)
         else visible)
      else visible)"

definition click_element :: "element \<Rightarrow> click_strategy option" where
  "click_element el =
     (case is_visible el of
        None \<Rightarrow> None
      | Some visible0 \<Rightarrow>
          (case is_enabled el of
             None \<Rightarrow> None
           | Some enabled \<Rightarrow>
               (let visible = visible_after_retry el visible0 in
                if visible \<and> enabled then (if click el then Some Normal else None)
                else if enabled then (if click_force el then Some Forced else None)
                else (if evaluate_click el then Some Scripted else None))))"

fun click_elements :: "nat \<Rightarrow> element list \<Rightarrow> (nat \<times> click_strategy) option" where
  "click_elements j [] = None"
| "click_elements j (el # els) =
     (case click_element el of
        Some s \<Rightarrow> Some (j, s)
      | None \<Rightarrow> click_elements (Suc j) els)"

fun click_selectors ::
  "(nat \<Rightarrow> string \<Rightarrow> element list option) \<Rightarrow> nat \<Rightarrow> string list
   \<Rightarrow> (string \<times> nat \<times> click_strategy) option" where
  "click_selectors page i [] = None"
| "click_selectors page i (selector # rest) =
     (case page i selector of
        None \<Rightarrow> click_selectors page (Suc i) rest
      | Some elements \<Rightarrow>
          (case click_elements 0 elements of
             Some (j, s) \<Rightarrow> Some (selector, j, s)
           | None \<Rightarrow> click_selectors page (Suc i) rest))"

text \<open>The candidate selectors of the two functions.\<close>

record button_info =
  bi_text :: string
  bi_tag_name :: string
  bi_class_name :: string
  bi_data_test_id :: string
  bi_aria_label :: string
  bi_id :: string
  bi_href :: string

definition generic_signup_selectors :: "string list" where
  "generic_signup_selectors =
     [''[data-testid*='' @ quote @ ''signup'' @ quote @ '']'',
      ''[data-testid*='' @ quote @ ''register'' @ quote @ '']'',
      ''[aria-label*='' @ quote @ ''sign up'' @ quote @ '']'',
      ''[aria-label*='' @ quote @ ''register'' @ quote @ '']'',
      ''button[class*='' @ quote @ ''signup'' @ quote @ '']'',
      ''button[class*='' @ quote @ ''register'' @ quote @ '']'',
      ''.signup-btn'', ''.register-btn'', ''#signup'', ''#register'']"

definition has_text_selectors :: "string \<Rightarrow> string list" where
  "has_text_selectors t =
     [''button:has-text('' @ quote @ t @ quote @ '')'',
      ''[role='' @ quote @ ''button'' @ quote @ '']:has-text('' @ quote @ t @ quote @ '')'',
      ''div:has-text('' @ quote @ t @ quote @ '')'',
      ''a:has-text('' @ quote @ t @ quote @ '')'',
      ''span:has-text('' @ quote @ t @ quote @ '')'']"

definition button_selectors :: "button_info \<Rightarrow> string list" where
  "button_selectors info =
     (if bi_text info \<noteq> [] then has_text_selectors (bi_text info) else [])
     @ (if bi_data_test_id info \<noteq> []
        then [''[data-testid='' @ quote @ bi_data_test_id info @ quote @ '']''] else [])
     @ (if bi_aria_label info \<noteq> []
        then [''[aria-label='' @ quote @ bi_aria_label info @ quote @ '']''] else [])
     @ (if bi_class_name info \<noteq> []
        then map (\<lambda>cls. ''.'' @ cls)
               (filter (\<lambda>cls. cls \<noteq> []) (take 3 (py_split (bi_class_name info))))
        else [])
     @ generic_signup_selectors"

definition trigger_selectors :: "string \<Rightarrow> string list" where
  "trigger_selectors trigger_button =
     (if trigger_button \<noteq> [] then has_text_selectors trigger_button else [])
     @ generic_signup_selectors"

text \<open>All elements met, in the order of the two loops.\<close>

definition candidates ::
  "(nat \<Rightarrow> string \<Rightarrow> element list option) \<Rightarrow> nat \<Rightarrow> string list
   \<Rightarrow> (string \<times> nat \<times> element) list" where
  "candidates page i selectors =
     concat (map (\<lambda>(k, selector).
                    case page k selector of
                      None \<Rightarrow> []
                    | Some elements \<Rightarrow> map (\<lambda>(j, el). (selector, j, el)) (List.enumerate 0 elements))
                 (List.enumerate i selectors))"

text \<open>A button that is enabled and becomes visible once it is scrolled into view.\<close>

definition revealed_button :: element where
  "revealed_button =
     \<lparr>is_visible = Some False, is_enabled = Some True, scroll_into_view = True,
      is_visible_after_scroll = Some True, click = True, click_force = True,
      evaluate_click = True\<rparr>"

text \<open>
  A button that is enabled and stays invisible after scrolling, an element whose
  visibility query fails, and a page that fails the first selector, answers the second
  with both elements and has nothing for the others.
\<close>

definition hidden_enabled_button :: element where
  "hidden_enabled_button =
     \<lparr>is_visible = Some False, is_enabled = Some True, scroll_into_view = True,
      is_visible_after_scroll = Some False, click = False, click_force = True,
      evaluate_click = True\<rparr>"

definition detached_element :: element where
  "detached_element =
     \<lparr>is_visible = None, is_enabled = Some True, scroll_into_view = True,
      is_visible_after_scroll = Some True, click = True, click_force = True,
      evaluate_click = True\<rparr>"

definition modal_page :: "nat \<Rightarrow> string \<Rightarrow> element list option" where
  "modal_page i selector =
     (if i = 0 then None
      else if i = 1 then Some [detached_element, hidden_enabled_button]
      else Some [])"

section \<open>JSON values\<close>

text \<open>The values that the report holds; a dictionary is the list of its items.\<close>

datatype json =
  JNull | JBool bool | JInt int | JStr string | JList "json list" | JObj "(string \<times> json) list"

section \<open>\<open>_security_analysis\<close>\<close>

text \<open>
  The two script evaluations of the stage: the first returns the names of the response
  headers (the keys of the dictionary), the second the number of POST forms without a
  CSRF-looking input; either may raise, with the text of the exception (\<open>Inl\<close>). The
  whole stage is one \<open>try\<close> block, whose handler appends the error finding to what was
  found before the exception.
\<close>

record security_probe =
  fetch_headers :: "string + string list"
  count_forms_without_csrf :: "string + int"

definition security_headers :: "string list" where
  "security_headers =
     [''x-frame-options'', ''x-content-type-options'', ''x-xss-protection'',
      ''strict-transport-security'', ''content-security-policy'']"

definition security_error :: "string \<Rightarrow> (string \<times> json) list" where
  "security_error e = [(''type'', JStr ''security_analysis_error''), (''error'', JStr e)]"

definition security_analysis :: "security_probe \<Rightarrow> (string \<times> json) list list" where
  "security_analysis probe =
     (case fetch_headers probe of
        Inl e \<Rightarrow> [security_error e]
      | Inr response \<Rightarrow>
          (let missing_headers = filter (\<lambda>header. header \<notin> set response) security_headers;
               security_findings =
                 (if missing_headers \<noteq> [] then
                    [[(''type'', JStr ''missing_security_headers''),
                      (''severity'', JStr ''medium''),
                      (''headers'', JList (map JStr missing_headers))]]
                  else [])
           in case count_forms_without_csrf probe of
                Inl e \<Rightarrow> security_findings @ [security_error e]
              | Inr forms_without_csrf \<Rightarrow>
                  (if forms_without_csrf > 0 then
                     security_findings @
                       [[(''type'', JStr ''forms_without_csrf''),
                         (''severity'', JStr ''high''),
                         (''count'', JInt forms_without_csrf)]]
                   else security_findings)))"


text \<open>A page whose script evaluation fails, and a page without headers and two bare forms.\<close>

definition failing_probe :: security_probe where
  "failing_probe =
     \<lparr>fetch_headers = Inl ''Execution context was destroyed'', count_forms_without_csrf = Inr 0\<rparr>"


section \<open>\<open>get_exploration_depth\<close>\<close>

text \<open>
  \<open>int(s)\<close> on a stripped string, in base ten: an optional sign, then digits, with
  single underscores allowed between digits; \<open>None\<close> is the \<open>ValueError\<close>.
\<close>

definition is_digit :: "char \<Rightarrow> bool" where
  "is_digit c \<longleftrightarrow> (let n = (of_char c :: nat) in 48 \<le> n \<and> n \<le> 57)"

definition digit_val :: "char \<Rightarrow> int" where
  "digit_val c = of_char c - 48"

fun parse_digits :: "int \<Rightarrow> string \<Rightarrow> int option" where
  "parse_digits acc [] = Some acc"
| "parse_digits acc [c] = (if is_digit c then Some (acc * 10 + digit_val c) else None)"
| "parse_digits acc (c # d # cs) =
     (if is_digit c then parse_digits (acc * 10 + digit_val c) (d # cs)
      else if c = CHR ''_'' \<and> is_digit d then parse_digits (acc * 10 + digit_val d) cs
      else None)"

definition parse_unsigned :: "string \<Rightarrow> int option" where
  "parse_unsigned s =
     (case s of [] \<Rightarrow> None
      | c # cs \<Rightarrow> if is_digit c then parse_digits (digit_val c) cs else None)"

definition py_parse_int :: "string \<Rightarrow> int option" where
  "py_parse_int s =
     (case s of [] \<Rightarrow> None
      | c # cs \<Rightarrow>
          if c = CHR ''-'' then map_option uminus (parse_unsigned cs)
          else if c = CHR ''+'' then parse_unsigned cs
          else parse_unsigned s)"

text \<open>
  What the console answers to the successive prompts: a line, or an interrupt. The end of
  the list is the end of the input, on which \<open>input\<close> raises \<open>EOFError\<close>, which the
  function does not catch. An interrupt ends the process with \<open>sys.exit(0)\<close>; a
  \<open>ValueError\<close> or a depth outside the range prints a message and prompts again.
\<close>

datatype console_event = Line string | KeyboardInterrupt

datatype depth_result = Returned int | SysExit int | EOFError

fun get_exploration_depth :: "console_event list \<Rightarrow> depth_result" where
  "get_exploration_depth [] = EOFError"
| "get_exploration_depth (KeyboardInterrupt # rest) = SysExit 0"
| "get_exploration_depth (Line entry # rest) =
     (let depth = strip entry in
      if depth = [] then Returned 3
      else (case py_parse_int depth of
              None \<Rightarrow> get_exploration_depth rest
            | Some d \<Rightarrow> if 1 \<le> d \<and> d \<le> 5 then Returned d else get_exploration_depth rest))"

section \<open>\<open>deep_explore_website\<close>\<close>

text \<open>
  The snapshot of a page (\<open>PageInfo\<close>) and an entry of the list of auth forms; the keys
  that only some entries carry are optional.
\<close>

record page_info =
  pi_url :: string
  pi_title :: string
  pi_content :: string
  pi_links :: "string list"
  pi_images :: "string list"
  pi_forms :: "form list"
  pi_meta_tags :: "(string \<times> string) list"
  pi_status_code :: "int option"
  pi_load_time :: "rat option"
  pi_errors :: "string list"

record auth_form =
  af_form :: form
  af_purpose :: string
  af_confidence :: rat
  af_source_url :: "string option"
  af_trigger_button :: "string option"
  af_switch_button :: "string option"

text \<open>
  What the collaborators of one run answer: the browser, the language model, the file
  system and the clock. Starting the browser, the call of the language model and the
  saving of the report may raise (a text: the exception), and the exception leaves
  \<open>deep_explore_website\<close>; \<open>navigate_to_page\<close> and the stages from the second on
  handle their exceptions and always return. The stages driven by the browser
  (\<open>_search_for_auth_links\<close>, the loop of \<open>_attempt_registration\<close> over the
  registration forms, \<open>_explore_all_forms\<close>, \<open>_discover_hidden_functionality\<close>,
  \<open>_analyze_user_flows\<close>, \<open>_performance_analysis\<close>) enter by what they return.
\<close>

record site =
  browser_start :: "string option"
  navigate_to_page :: "string \<Rightarrow> page_info"
  llm_invoke :: "page_info \<Rightarrow> string + string"
  json_loads :: "string \<Rightarrow> json option"
  search_for_auth_links :: "auth_form list"
  registration_flow :: "auth_form list \<Rightarrow> persona \<Rightarrow> json option"
  explore_all_forms :: "page_info \<Rightarrow> json list"
  discover_hidden_functionality :: "json list"
  analyze_user_flows :: "page_info \<Rightarrow> int \<Rightarrow> json list"
  security_page :: security_probe
  performance_analysis :: json
  save_exploration_report :: "string option"
  now_isoformat :: string

text \<open>
  The report dictionary. \<open>main_page_analysis\<close> and \<open>auth_forms_discovered\<close> are
  keys that the first two stages add: \<open>None\<close> until then.
\<close>

record exploration_report =
  url :: string
  timestamp :: string
  exploration_depth :: int
  discovered_pages :: "json list"
  registration_attempts :: "json list"
  form_interactions :: "json list"
  hidden_functionality :: "json list"
  user_flows :: "json list"
  security_findings :: "(string \<times> json) list list"
  accessibility_issues :: "json list"
  performance_insights :: json
  main_page_analysis :: "json option"
  auth_forms_discovered :: "nat option"

datatype run_error = BrowserStartError string | LLMError string | SaveError string

definition analyze_page_deeply :: "site \<Rightarrow> page_info \<Rightarrow> string + json" where
  "analyze_page_deeply w page =
     (case llm_invoke w page of
        Inl e \<Rightarrow> Inl e
      | Inr content \<Rightarrow>
          Inr (case json_loads w content of
                 Some analysis \<Rightarrow> analysis
               | None \<Rightarrow> JObj [(''analysis'', JStr content), (''format'', JStr ''text'')]))"

definition discover_auth_forms :: "site \<Rightarrow> page_info \<Rightarrow> auth_form list" where
  "discover_auth_forms w page =
     map (\<lambda>fm. \<lparr>af_form = fm, af_purpose = classify_form_purpose fm, af_confidence = 8/10,
                 af_source_url = None, af_trigger_button = None, af_switch_button = None\<rparr>)
       (filter (\<lambda>fm. classify_form_purpose fm
                       \<in> set [''registration'', ''login'', ''signup'', ''signin''])
          (pi_forms page))
     @ search_for_auth_links w"

definition attempt_registration :: "site \<Rightarrow> auth_form list \<Rightarrow> persona \<Rightarrow> json option" where
  "attempt_registration w auth_forms persona =
     (let registration_forms = filter (\<lambda>f. af_purpose f = ''registration'') auth_forms in
      if registration_forms = [] then None
      else registration_flow w registration_forms persona)"

definition deep_explore_website ::
  "site \<Rightarrow> persona list \<Rightarrow> string \<Rightarrow> int \<Rightarrow> run_error + exploration_report" where
  "deep_explore_website w user_personas url0 max_depth =
     (let report0 =
            \<lparr>url = url0, timestamp = now_isoformat w, exploration_depth = max_depth,
             discovered_pages = [], registration_attempts = [], form_interactions = [],
             hidden_functionality = [], user_flows = [], security_findings = [],
             accessibility_issues = [], performance_insights = JList [],
             main_page_analysis = None, auth_forms_discovered = None\<rparr>
      in case browser_start w of
           Some e \<Rightarrow> Inl (BrowserStartError e)
         | None \<Rightarrow>
             (let main_page = navigate_to_page w url0 in
              case analyze_page_deeply w main_page of
                Inl e \<Rightarrow> Inl (LLMError e)
              | Inr analysis \<Rightarrow>
                  (let report1 = report0\<lparr>main_page_analysis := Some analysis\<rparr>;
                       auth_forms = discover_auth_forms w main_page;
                       report2 = report1\<lparr>auth_forms_discovered := Some (length auth_forms)\<rparr>;
                       report3 =
                         foldl (\<lambda>report persona.
                                  case attempt_registration w auth_forms persona of
                                    Some registration_result \<Rightarrow>
                                      report\<lparr>registration_attempts :=
                                        registration_attempts report @ [registration_result]\<rparr>
                                  | None \<Rightarrow> report)
                           report2 user_personas;
                       report4 = report3\<lparr>form_interactions := explore_all_forms w main_page\<rparr>;
                       report5 = report4\<lparr>hidden_functionality := discover_hidden_functionality w\<rparr>;
                       report6 = report5\<lparr>user_flows := analyze_user_flows w main_page max_depth\<rparr>;
                       report7 = report6\<lparr>security_findings := security_analysis (security_page w)\<rparr>;
                       report8 = report7\<lparr>performance_insights := performance_analysis w\<rparr>
                   in case save_exploration_report w of
                        Some e \<Rightarrow> Inl (SaveError e)
                      | None \<Rightarrow> Inr report8)))"

text \<open>A site with an empty main page: no form, no link, no trigger.\<close>

definition empty_page :: "string \<Rightarrow> page_info" where
  "empty_page u =
     \<lparr>pi_url = u, pi_title = ''Example Domain'', pi_content = '''', pi_links = [],
      pi_images = [], pi_forms = [], pi_meta_tags = [], pi_status_code = Some 200,
      pi_load_time = Some (1/2), pi_errors = []\<rparr>"

definition quiet_site :: site where
  "quiet_site =
     \<lparr>browser_start = None, navigate_to_page = empty_page,
      llm_invoke = (\<lambda>page. Inr ''no forms''), json_loads = (\<lambda>s. None),
      search_for_auth_links = [], registration_flow = (\<lambda>forms persona. None),
      explore_all_forms = (\<lambda>page. []), discover_hidden_functionality = [],
      analyze_user_flows = (\<lambda>page depth. []), security_page = failing_probe,
      performance_analysis = JObj [(''error'', JStr ''Performance analysis failed'')],
      save_exploration_report = None, now_isoformat = ''2026-11-04T10:00:00''\<rparr>"

section \<open>Lemmas on strings\<close>

lemma lower_append: "lower (a @ b) = lower a @ lower b" by (simp add: lower_def)
lemma lower_char_idem: "lower_char (lower_char c) = lower_char c"
  by (auto simp add: lower_char_def Let_def)
lemma lower_idem: "lower (lower s) = lower s" by (simp add: lower_def lower_char_idem)

lemma lower_join: "lower (join sep xs) = join (lower sep) (map lower xs)"
  by (induction sep xs rule: join.induct) (simp_all add: lower_append, simp add: lower_def)

lemma sublist_space_append:
  assumes "CHR '' '' \<notin> set k" and "k \<noteq> []"
  shows "sublist k (x @ '' '' @ r) \<longleftrightarrow> sublist k x \<or> sublist k r"
proof
  assume "sublist k (x @ '' '' @ r)"
  then obtain ps ss where eq: "x @ '' '' @ r = ps @ k @ ss" by (auto simp: sublist_def)
  show "sublist k x \<or> sublist k r"
  proof (cases "length (ps @ k) \<le> length x")
    case True
    with eq have "take (length (ps @ k)) x = ps @ k"
      by (metis append.assoc append_eq_conv_conj take_append diff_is_0_eq take_0 append_Nil2 length_append)
    then have "sublist k x" by (metis append_take_drop_id sublist_def append.assoc)
    then show ?thesis ..
  next
    case False
    then have len: "length x < length ps + length k" by simp
    show ?thesis
    proof (cases "length x < length ps")
      case True
      have A: "drop (Suc (length x)) (x @ '' '' @ r) = r" by simp
      from True have B: "drop (Suc (length x)) (ps @ k @ ss) = drop (Suc (length x)) ps @ k @ ss"
        by simp
      from eq have "drop (Suc (length x)) (x @ '' '' @ r) = drop (Suc (length x)) (ps @ k @ ss)"
        by (rule arg_cong)
      with A B have "r = drop (Suc (length x)) ps @ k @ ss" by (simp only:)
      then have "sublist k r" by (auto simp: sublist_def)
      then show ?thesis ..
    next
      case False
      then have le: "length ps \<le> length x" by simp
      have C: "(x @ '' '' @ r) ! length x = CHR '' ''" by (simp add: nth_append)
      have lt: "length x - length ps < length k" using le len by arith
      have D: "(ps @ k @ ss) ! length x = k ! (length x - length ps)"
        using le lt by (simp add: nth_append)
      from C D eq have "k ! (length x - length ps) = CHR '' ''" by metis
      with lt have "CHR '' '' \<in> set k" by (metis nth_mem)
      with assms show ?thesis by simp
    qed
  qed
next
  assume "sublist k x \<or> sublist k r"
  then show "sublist k (x @ '' '' @ r)"
    by (metis sublist_order.order.trans sublist_appendI sublist_append_rightI sublist_append_leftI append.assoc)
qed

lemma sublist_join_iff:
  assumes "CHR '' '' \<notin> set k" and "k \<noteq> []"
  shows "sublist k (join '' '' xs) \<longleftrightarrow> (\<exists>x\<in>set xs. sublist k x)"
proof (induction "'' ''" xs rule: join.induct)
  case 1
  from assms show ?case by simp
next
  case (2 x)
  show ?case by simp
next
  case (3 x y ys)
  have "sublist k (join '' '' (x # y # ys)) \<longleftrightarrow> sublist k x \<or> sublist k (join '' '' (y # ys))"
    using sublist_space_append[OF assms, of x "join '' '' (y # ys)"] by simp
  with 3 show ?case by auto
qed


lemma lower_space: "lower '' '' = '' ''"
  by code_simp

lemma all_input_text_join:
  "all_input_text fm = join '' '' (input_names fm @ input_placeholders fm)"
  by (simp add: all_input_text_def lower_join lower_space input_names_def
      input_placeholders_def lower_idem o_def)

lemma all_input_text_iff:
  assumes "CHR '' '' \<notin> set k" and "k \<noteq> []"
  shows "sublist k (all_input_text fm) \<longleftrightarrow> mentions k fm"
  unfolding all_input_text_join sublist_join_iff[OF assms] mentions_def
  by (auto simp: input_names_def input_placeholders_def)

lemma input_types_mem:
  "t \<in> set (input_types fm) \<longleftrightarrow> (\<exists>inp\<in>set (form_inputs fm). lower (f_type inp) = t)"
  by (auto simp: input_types_def)

lemma indicators_iff:
  "list_ex id (registration_indicators fm) \<longleftrightarrow> spec_registration_indicator fm"
  unfolding registration_indicators_def spec_registration_indicator_def
  by (simp add: all_input_text_iff input_types_mem)

lemma password_email_iff:
  "''password'' \<in> set (input_types fm)
     \<and> (''email'' \<in> set (input_types fm) \<or> sublist ''email'' (all_input_text fm))
   \<longleftrightarrow> has_password_and_email fm"
  unfolding has_password_and_email_def
  by (simp add: all_input_text_iff input_types_mem mentions_def)

lemma placeholder_rule_iff:
  "list_ex (any_in ks) (input_placeholders fm)
   \<longleftrightarrow> (\<exists>inp\<in>set (form_inputs fm). any_in ks (lower (f_placeholder inp)))"
  by (simp add: input_placeholders_def list_ex_iff)

section \<open>The form-purpose classifier\<close>

text \<open>
  C6, as amended. For every form on which no keyword rule fires (rules 2 to 5) and whose
  fields hold a password-typed field and an email-typed or email-named field, the
  classifier returns \<open>registration\<close> when a registration indicator holds (confirm,
  first, last, name, phone or birth in a field's name or placeholder, a date-typed field,
  agree or terms in the text, or more than two fields) and \<open>login\<close> otherwise.
\<close>

theorem classify_password_email_form:
  assumes "\<not> keyword_rule_fires fm" and "has_password_and_email fm"
  shows "classify_form_purpose fm =
           (if spec_registration_indicator fm then ''registration'' else ''login'')"
  using assms
  unfolding classify_form_purpose_def keyword_rule_fires_def
  by (simp only: placeholder_rule_iff indicators_iff password_email_iff) simp

theorem classify_password_email_form_witness:
  "\<not> keyword_rule_fires plain_login_form \<and> has_password_and_email plain_login_form
   \<and> \<not> spec_registration_indicator plain_login_form
   \<and> classify_form_purpose plain_login_form = ''login''"
proof -
  have h1: "\<not> keyword_rule_fires plain_login_form" by code_simp
  have h2: "has_password_and_email plain_login_form" by code_simp
  have h3: "\<not> spec_registration_indicator plain_login_form" by code_simp
  show ?thesis using h1 h2 h3 classify_password_email_form [OF h1 h2] by simp
qed

text \<open>
  C6 as stated fails: a form headed \<open>Login\<close> with an email field, a password field
  and a name field (three fields, two indicators) is classified \<open>login\<close>, because the
  login keyword rule decides first.
\<close>

theorem classify_password_email_form_counterexample:
  "has_password_and_email login_titled_form
   \<and> spec_registration_indicator login_titled_form
   \<and> classify_form_purpose login_titled_form = ''login''"
  by code_simp

text \<open>
  C1, as amended. For every form whose text holds no login, contact, search or
  subscription keyword, which has a password-typed field and an email-typed or
  email-named field, and which has a field whose name contains \<open>confirm\<close> (or a field
  whose name contains \<open>repeat\<close>, in a form of more than two fields), the classifier
  returns \<open>registration\<close>.
\<close>

theorem classify_confirm_field_registration:
  assumes "\<not> other_purpose_keyword fm" and "has_password_and_email fm"
    and "\<exists>inp\<in>set (form_inputs fm).
           sublist ''confirm'' (lower (f_name inp))
           \<or> (sublist ''repeat'' (lower (f_name inp)) \<and> length (form_inputs fm) > 2)"
  shows "classify_form_purpose fm = ''registration''"
proof -
  from assms(3) have ind: "spec_registration_indicator fm"
    unfolding spec_registration_indicator_def mentions_def by blast
  from assms(1) have no_other:
    "\<not> any_in login_keywords (text_lower fm)"
    "\<not> any_in [''contact'', ''message'', ''email us''] (text_lower fm)"
    "\<not> any_in [''search''] (text_lower fm)"
    "\<not> any_in [''subscribe'', ''newsletter''] (text_lower fm)"
    unfolding other_purpose_keyword_def by simp_all
  show ?thesis
    unfolding classify_form_purpose_def
    using no_other ind assms(2)
    by (simp only: placeholder_rule_iff indicators_iff password_email_iff) simp
qed

theorem classify_confirm_field_registration_witness:
  "\<not> other_purpose_keyword signup_form \<and> has_password_and_email signup_form
   \<and> (\<exists>inp\<in>set (form_inputs signup_form).
          sublist ''confirm'' (lower (f_name inp))
          \<or> (sublist ''repeat'' (lower (f_name inp)) \<and> length (form_inputs signup_form) > 2))
   \<and> classify_form_purpose signup_form = ''registration''"
proof -
  have h1: "\<not> other_purpose_keyword signup_form" by code_simp
  have h2: "has_password_and_email signup_form" by code_simp
  have h3: "\<exists>inp\<in>set (form_inputs signup_form).
          sublist ''confirm'' (lower (f_name inp))
          \<or> (sublist ''repeat'' (lower (f_name inp)) \<and> length (form_inputs signup_form) > 2)"
    by code_simp
  show ?thesis using h1 h2 h3 classify_confirm_field_registration [OF h1 h2 h3] by simp
qed

text \<open>
  C1 as stated fails: a form with a password field and a \<open>confirm_password\<close> field
  and no email field is classified \<open>unknown\<close>.
\<close>

theorem classify_confirm_field_counterexample:
  "(\<exists>inp\<in>set (form_inputs change_password_form). lower (f_type inp) = ''password'')
   \<and> (\<exists>inp\<in>set (form_inputs change_password_form). sublist ''confirm'' (lower (f_name inp)))
   \<and> classify_form_purpose change_password_form = ''unknown''"
  by code_simp

section \<open>Lemmas on decimal numerals\<close>

lemma str_digits_nonempty: "str_digits n \<noteq> []"
  by (subst str_digits.simps) simp

lemma digit_char_inj:
  assumes "0 \<le> a" "a < 10" "0 \<le> b" "b < 10" "digit_char a = digit_char b"
  shows "a = b"
proof -
  from assms(5) have "(48 + a) mod 256 = (48 + b) mod 256"
    by (simp add: digit_char_def)
  with assms(1-4) show ?thesis by simp
qed

lemma char_of_45: "CHR ''-'' = char_of (45::int)"
  by code_simp

lemma digit_char_not_minus:
  assumes "0 \<le> a" "a < 10"
  shows "digit_char a \<noteq> CHR ''-''"
proof
  assume "digit_char a = CHR ''-''"
  then have "char_of (48 + a) = (char_of (45::int))"
    unfolding digit_char_def by (simp only: char_of_45)
  then have "(48 + a) mod 256 = (45::int) mod 256" by (simp only: char_of_quasi_inj)
  with assms show False by simp
qed

lemma str_digits_inj:
  "0 \<le> n \<Longrightarrow> 0 \<le> m \<Longrightarrow> str_digits n = str_digits m \<Longrightarrow> n = m"
proof (induction n arbitrary: m rule: str_digits.induct)
  case (1 n)
  show ?case
  proof (cases "n < 10")
    case True
    note n_small = this
    show ?thesis
    proof (cases "m < 10")
      case True
      with n_small "1.prems" show ?thesis
        by (subst (asm) str_digits.simps, subst (asm) (2) str_digits.simps)
           (simp add: digit_char_inj)
    next
      case False
      with n_small "1.prems"(3) have "[digit_char n] = str_digits (m div 10) @ [digit_char (m mod 10)]"
        by (subst (asm) str_digits.simps, subst (asm) (2) str_digits.simps) simp
      then have "str_digits (m div 10) = []" by simp
      with str_digits_nonempty show ?thesis by blast
    qed
  next
    case False
    note n_big = this
    show ?thesis
    proof (cases "m < 10")
      case True
      with n_big "1.prems"(3) have "str_digits (n div 10) @ [digit_char (n mod 10)] = [digit_char m]"
        by (subst (asm) str_digits.simps, subst (asm) (2) str_digits.simps) simp
      then have "str_digits (n div 10) = []" by simp
      with str_digits_nonempty show ?thesis by blast
    next
      case False
      with n_big "1.prems"(3) have eq:
        "str_digits (n div 10) @ [digit_char (n mod 10)] = str_digits (m div 10) @ [digit_char (m mod 10)]"
        by (subst (asm) str_digits.simps, subst (asm) (2) str_digits.simps) simp
      then have e1: "str_digits (n div 10) = str_digits (m div 10)"
        and e2: "digit_char (n mod 10) = digit_char (m mod 10)" by simp_all
      from "1.prems" have "0 \<le> n div 10" "0 \<le> m div 10" by simp_all
      with "1.IH"[OF n_big _ _ e1] have d: "n div 10 = m div 10" by simp
      have r: "n mod 10 = m mod 10"
        by (rule digit_char_inj[OF _ _ _ _ e2]) simp_all
      from d r show ?thesis by (metis div_mult_mod_eq)
    qed
  qed
qed

lemma hd_str_digits: "0 \<le> n \<Longrightarrow> hd (str_digits n) \<noteq> CHR ''-''"
proof (induction n rule: str_digits.induct)
  case (1 n)
  show ?case
  proof (cases "n < 10")
    case True
    with "1.prems" show ?thesis
      by (subst str_digits.simps) (simp add: digit_char_not_minus)
  next
    case False
    with "1.prems" have "hd (str_digits (n div 10)) \<noteq> CHR ''-''"
      by (intro "1.IH") simp_all
    with False show ?thesis
      by (subst str_digits.simps) (simp add: str_digits_nonempty)
  qed
qed

lemma str_int_inj: "str_int i = str_int j \<Longrightarrow> i = j"
proof -
  assume eq: "str_int i = str_int j"
  consider "i < 0" "j < 0" | "i < 0" "0 \<le> j" | "0 \<le> i" "j < 0" | "0 \<le> i" "0 \<le> j"
    by linarith
  then show ?thesis
  proof cases
    case 1
    with eq have "str_digits (- i) = str_digits (- j)" by (simp add: str_int_def)
    with 1 have "- i = - j" by (intro str_digits_inj) simp_all
    then show ?thesis by simp
  next
    case 2
    with eq have "CHR ''-'' # str_digits (- i) = str_digits j" by (simp add: str_int_def)
    then have "hd (str_digits j) = CHR ''-''" by (metis list.sel(1))
    with hd_str_digits[OF 2(2)] show ?thesis by simp
  next
    case 3
    with eq have "str_digits i = CHR ''-'' # str_digits (- j)" by (simp add: str_int_def)
    then have "hd (str_digits i) = CHR ''-''" by (metis list.sel(1))
    with hd_str_digits[OF 3(1)] show ?thesis by simp
  next
    case 4
    with eq show ?thesis by (simp add: str_int_def str_digits_inj)
  qed
qed


lemma email_of_test_data:
  "map_of (generate_test_data t s p) ''email''
     = Some (email_prefix p @ ''.'' @ str_int (py_int t) @ ''.'' @ s @ ''@testmail.com'')"
  by (simp add: generate_test_data_def)

lemma email_of_contact_data:
  "map_of (generate_contact_data t) ''email''
     = Some (''testcontact.'' @ str_int (py_int t) @ ''@example.com'')"
  by (simp add: generate_contact_data_def)

lemma email_of_subscription_data:
  "map_of (generate_subscription_data t) ''email''
     = Some (''testsub.'' @ str_int (py_int t) @ ''@example.com'')"
  by (simp add: generate_subscription_data_def)

lemma str_int_append_eq: "str_int i @ z = str_int j @ z \<longleftrightarrow> i = j"
  by (auto dest: str_int_inj)

lemma stamped_suffix_eq:
  assumes "length s1 = length s2"
  shows "str_int i @ ''.'' @ s1 @ z = str_int j @ ''.'' @ s2 @ z \<longleftrightarrow> i = j \<and> s1 = s2"
proof -
  have "str_int i @ ''.'' @ s1 @ z = str_int j @ ''.'' @ s2 @ z
        \<longleftrightarrow> (str_int i @ ''.'') @ (s1 @ z) = (str_int j @ ''.'') @ (s2 @ z)" by simp
  also have "\<dots> \<longleftrightarrow> str_int i @ ''.'' = str_int j @ ''.'' \<and> s1 @ z = s2 @ z"
    using assms by (intro append_eq_append_conv) simp
  also have "\<dots> \<longleftrightarrow> i = j \<and> s1 = s2"
    using str_int_append_eq[of i "[]" j] by simp
  finally show ?thesis .
qed

section \<open>The test-data generators\<close>

text \<open>
  C2, as amended. Two calls of the registration generator for one persona yield equal
  email values exactly when they read the same whole second of the clock and draw the
  same six-character random suffix; two calls of the contact generator, and two calls of
  the subscription generator, yield equal email values exactly when they read the same
  whole second (no random suffix is used there); the search data set has no email slot.
\<close>

theorem generated_emails_equal_iff:
  assumes "valid_suffix s1" and "valid_suffix s2"
  shows "(map_of (generate_test_data t1 s1 p) ''email'' = map_of (generate_test_data t2 s2 p) ''email''
            \<longleftrightarrow> py_int t1 = py_int t2 \<and> s1 = s2)
       \<and> (map_of (generate_contact_data t1) ''email'' = map_of (generate_contact_data t2) ''email''
            \<longleftrightarrow> py_int t1 = py_int t2)
       \<and> (map_of (generate_subscription_data t1) ''email''
              = map_of (generate_subscription_data t2) ''email''
            \<longleftrightarrow> py_int t1 = py_int t2)
       \<and> map_of (generate_search_data r1 r2 r3) ''email'' = None"
proof -
  from assms have len: "length s1 = length s2" by (simp add: valid_suffix_def)
  have a: "map_of (generate_test_data t1 s1 p) ''email'' = map_of (generate_test_data t2 s2 p) ''email''
            \<longleftrightarrow> py_int t1 = py_int t2 \<and> s1 = s2"
    unfolding email_of_test_data option.inject same_append_eq
    by (rule stamped_suffix_eq[OF len])
  have b: "map_of (generate_contact_data t1) ''email'' = map_of (generate_contact_data t2) ''email''
            \<longleftrightarrow> py_int t1 = py_int t2"
    unfolding email_of_contact_data option.inject same_append_eq
    by (rule str_int_append_eq)
  have c: "map_of (generate_subscription_data t1) ''email''
              = map_of (generate_subscription_data t2) ''email''
            \<longleftrightarrow> py_int t1 = py_int t2"
    unfolding email_of_subscription_data option.inject same_append_eq
    by (rule str_int_append_eq)
  have d: "map_of (generate_search_data r1 r2 r3) ''email'' = None"
    by (simp add: generate_search_data_def)
  from a b c d show ?thesis by blast
qed

theorem generated_emails_equal_iff_witness:
  "valid_suffix ''ab12cd'' \<and> valid_suffix ''zz99aa''
   \<and> map_of (generate_test_data (17307144002/10) ''ab12cd'' regular_user) ''email''
       \<noteq> map_of (generate_test_data (17307144007/10) ''zz99aa'' regular_user) ''email''"
proof -
  have h1: "valid_suffix ''ab12cd''" by code_simp
  have h2: "valid_suffix ''zz99aa''" by code_simp
  have ne: "''ab12cd'' \<noteq> ''zz99aa''" by simp
  show ?thesis
    using h1 h2 ne
      generated_emails_equal_iff [OF h1 h2, of "17307144002/10" regular_user "17307144007/10"]
    by blast
qed

text \<open>
  C2 as stated fails: two successive calls of the subscription generator, at clock
  readings 1730714400.2 and 1730714400.7, yield the same email value.
\<close>

theorem subscription_email_collision_counterexample:
  "(17307144002/10 :: rat) < 17307144007/10
   \<and> map_of (generate_subscription_data (17307144002/10)) ''email''
       = Some ''testsub.1730714400@example.com''
   \<and> map_of (generate_subscription_data (17307144007/10)) ''email''
       = Some ''testsub.1730714400@example.com''"
  by code_simp

section \<open>The field matcher\<close>

text \<open>
  C3 fails on the code: the checkbox test is the last but one branch of the matcher, so a
  checkbox whose name holds a keyword is matched by the keyword's branch first. A checkbox
  named \<open>newsletter_email\<close> is given the email value of the data set.
\<close>

theorem checkbox_with_keyword_is_matched:
  "match_field_to_data ''newsletter_email'' ''checkbox'' '''' (map_of regular_user_data)
     = Some ''testuser.1730714400.ab12cd@testmail.com''"
  by code_simp

section \<open>Form filling\<close>

lemma fill_inputs_attempts:
  "fill_inputs page td i inps filled errs =
     (case List.map_filter read_error_of (field_attempts page td i inps) of
        [] \<Rightarrow> Inr (filled @ List.map_filter filled_of (field_attempts page td i inps),
                  errs @ List.map_filter error_of (field_attempts page td i inps))
      | e # es \<Rightarrow> Inl e)"
proof (induction inps arbitrary: i filled errs)
  case Nil
  show ?case by (simp add: field_attempts_def List.map_filter_simps)
next
  case (Cons inp rest)
  show ?case
    by (simp add: Cons.IH field_attempts_def field_attempt_def List.map_filter_simps
        split: option.split browser_outcome.split sum.split list.split)
qed

lemma fill_form_attempts:
  "fill_form_intelligently page inputs td =
     (case List.map_filter read_error_of (field_attempts page td 0 inputs) of
        [] \<Rightarrow>
          \<lparr>fr_success = List.map_filter filled_of (field_attempts page td 0 inputs) \<noteq> [],
           fr_filled_fields = List.map_filter filled_of (field_attempts page td 0 inputs),
           fr_errors = List.map_filter error_of (field_attempts page td 0 inputs)\<rparr>
      | e # es \<Rightarrow>
          \<lparr>fr_success = False, fr_filled_fields = [], fr_errors = [GeneralError e]\<rparr>)"
  by (simp add: fill_form_intelligently_def fill_inputs_attempts split: list.split)

lemma get_lower_descriptor_of:
  "get_lower (descriptor_of inp) ''name'' d1 = Inr (lower (f_name inp))"
  "get_lower (descriptor_of inp) ''type'' d2 = Inr (lower (f_type inp))"
  "get_lower (descriptor_of inp) ''placeholder'' d3 = Inr (lower (f_placeholder inp))"
  by (simp_all add: get_lower_def descriptor_of_def)

lemma read_error_of_descriptor_of:
  "read_error_of (field_attempt page td i (descriptor_of inp)) = None"
  by (simp add: field_attempt_def get_lower_descriptor_of
      split: option.split browser_outcome.split)

lemma no_read_error_descriptors:
  "List.map_filter read_error_of (field_attempts page td i (map descriptor_of inps)) = []"
  by (induction inps arbitrary: i)
     (simp_all add: field_attempts_def List.map_filter_simps read_error_of_descriptor_of)

lemma enumerate_append:
  "List.enumerate i (xs @ ys) = List.enumerate i xs @ List.enumerate (i + length xs) ys"
  by (induction xs arbitrary: i) simp_all

lemma field_attempts_append:
  "field_attempts page td i (xs @ ys)
     = field_attempts page td i xs @ field_attempts page td (i + length xs) ys"
  by (simp add: field_attempts_def enumerate_append)

lemma field_attempts_Cons:
  "field_attempts page td i (d # ys)
     = field_attempt page td i d # field_attempts page td (Suc i) ys"
  by (simp add: field_attempts_def)

lemma map_filter_append:
  "List.map_filter f (xs @ ys) = List.map_filter f xs @ List.map_filter f ys"
  by (simp add: List.map_filter_def)

lemma fill_inputs_goes_on:
  assumes "List.map_filter read_error_of (field_attempts page td 0 pre) = []"
    and "field_attempt page td (length pre) d = Raised err"
  shows "fill_inputs page td 0 (pre @ d # post) [] []
           = fill_inputs page td (Suc (length pre)) post
               (List.map_filter filled_of (field_attempts page td 0 pre))
               (List.map_filter error_of (field_attempts page td 0 pre) @ [err])"
  using assms
  by (simp add: fill_inputs_attempts[of page td 0]
      fill_inputs_attempts[of page td "Suc (length pre)"]
      field_attempts_append field_attempts_Cons map_filter_append List.map_filter_simps
      split: list.split)

lemma map_filter_mem:
  "k < length xs \<Longrightarrow> f (xs ! k) = Some y \<Longrightarrow> y \<in> set (List.map_filter f xs)"
  by (force simp: List.map_filter_def)

text \<open>
  C9. Every browser failure on one field (the query or the fill raising) is caught by
  the inner handler and the loop goes on: when no read of a descriptor raises, the filled
  fields of the result are exactly the attempts that succeeded and the errors exactly the
  attempts that raised, over all the inputs and in their order, so that the error of a
  field that failed is in the errors and every field that could be filled, before or
  after it, is in the filled fields. This is the case of every list of descriptors that
  hold strings. Whatever the descriptors after it, the loop that has recorded the error
  of a field goes on with the fields that remain (the last conjunct, on the loop
  itself). For every list of descriptors, page behaviour and data set the function
  returns a record: when a read raises, the exception is caught by the outer handler and
  the record is the one of general failure.
\<close>

theorem fill_form_attempts_every_field:
  "fill_form_intelligently page inputs td =
     (case List.map_filter read_error_of (field_attempts page td 0 inputs) of
        [] \<Rightarrow>
          \<lparr>fr_success = List.map_filter filled_of (field_attempts page td 0 inputs) \<noteq> [],
           fr_filled_fields = List.map_filter filled_of (field_attempts page td 0 inputs),
           fr_errors = List.map_filter error_of (field_attempts page td 0 inputs)\<rparr>
      | e # es \<Rightarrow>
          \<lparr>fr_success = False, fr_filled_fields = [], fr_errors = [GeneralError e]\<rparr>)
   \<and> length (field_attempts page td 0 inputs) = length inputs
   \<and> List.map_filter read_error_of
        (field_attempts page td 0 (map descriptor_of (form_inputs fm))) = []
   \<and> (List.map_filter read_error_of (field_attempts page td 0 inputs) = []
        \<and> k < length inputs \<and> field_attempts page td 0 inputs ! k = Raised err
      \<longrightarrow> err \<in> set (fr_errors (fill_form_intelligently page inputs td))
          \<and> (\<forall>j < length inputs. \<forall>f. field_attempts page td 0 inputs ! j = FilledOk f
                \<longrightarrow> f \<in> set (fr_filled_fields (fill_form_intelligently page inputs td))))
   \<and> (List.map_filter read_error_of (field_attempts page td 0 pre) = []
        \<and> field_attempt page td (length pre) d = Raised err
      \<longrightarrow> fill_inputs page td 0 (pre @ d # post) [] []
            = fill_inputs page td (Suc (length pre)) post
                (List.map_filter filled_of (field_attempts page td 0 pre))
                (List.map_filter error_of (field_attempts page td 0 pre) @ [err]))"
proof -
  have len: "length (field_attempts page td 0 inputs) = length inputs"
    by (simp add: field_attempts_def)
  have goes_on: "fill_inputs page td 0 (pre @ d # post) [] []
            = fill_inputs page td (Suc (length pre)) post
                (List.map_filter filled_of (field_attempts page td 0 pre))
                (List.map_filter error_of (field_attempts page td 0 pre) @ [err])"
    if "List.map_filter read_error_of (field_attempts page td 0 pre) = []"
      and "field_attempt page td (length pre) d = Raised err"
    using that by (rule fill_inputs_goes_on)
  have last: "err \<in> set (fr_errors (fill_form_intelligently page inputs td))
          \<and> (\<forall>j < length inputs. \<forall>f. field_attempts page td 0 inputs ! j = FilledOk f
                \<longrightarrow> f \<in> set (fr_filled_fields (fill_form_intelligently page inputs td)))"
    if ok: "List.map_filter read_error_of (field_attempts page td 0 inputs) = []"
      and k: "k < length inputs" and r: "field_attempts page td 0 inputs ! k = Raised err"
  proof -
    have res: "fr_errors (fill_form_intelligently page inputs td)
                 = List.map_filter error_of (field_attempts page td 0 inputs)"
      "fr_filled_fields (fill_form_intelligently page inputs td)
                 = List.map_filter filled_of (field_attempts page td 0 inputs)"
      by (simp_all add: fill_form_attempts ok)
    have "err \<in> set (List.map_filter error_of (field_attempts page td 0 inputs))"
      using k r len by (intro map_filter_mem[of k]) simp_all
    moreover have "f \<in> set (List.map_filter filled_of (field_attempts page td 0 inputs))"
      if "j < length inputs" "field_attempts page td 0 inputs ! j = FilledOk f" for j f
      using that len by (intro map_filter_mem[of j]) simp_all
    ultimately show ?thesis by (simp add: res)
  qed
  from fill_form_attempts[of page inputs td] len
    no_read_error_descriptors[of page td 0 "form_inputs fm"] last goes_on
  show ?thesis by blast
qed

text \<open>
  On the inputs of the sign-up form, with a page that fails on the second field: the
  first and the third field are filled and the failure is recorded.
\<close>

lemma fill_form_flaky_page:
  "fill_form_intelligently flaky_page signup_inputs (map_of regular_user_data) =
     \<lparr>fr_success = True,
      fr_filled_fields =
        [\<lparr>ff_field = ''password'', ff_type = ''password'', ff_value = ''TestPass123!@#''\<rparr>,
         \<lparr>ff_field = ''email'', ff_type = ''email'', ff_value = ''testuser.1730714400....''\<rparr>],
      fr_errors = [FieldError ''confirm_password'' ''Timeout 30000ms exceeded'']\<rparr>"
  by code_simp

theorem fill_form_attempts_every_field_witness:
  "List.map_filter read_error_of
     (field_attempts flaky_page (map_of regular_user_data) 0 signup_inputs) = []
   \<and> (1::nat) < length signup_inputs
   \<and> field_attempts flaky_page (map_of regular_user_data) 0 signup_inputs ! 1
       = Raised (FieldError ''confirm_password'' ''Timeout 30000ms exceeded'')
   \<and> FieldError ''confirm_password'' ''Timeout 30000ms exceeded''
       \<in> set (fr_errors
             (fill_form_intelligently flaky_page signup_inputs (map_of regular_user_data)))"
proof -
  have h1: "List.map_filter read_error_of
     (field_attempts flaky_page (map_of regular_user_data) 0 signup_inputs) = []"
    by (simp add: signup_inputs_def no_read_error_descriptors)
  have h2: "(1::nat) < length signup_inputs" by code_simp
  have h3: "field_attempts flaky_page (map_of regular_user_data) 0 signup_inputs ! 1
       = Raised (FieldError ''confirm_password'' ''Timeout 30000ms exceeded'')"
    by code_simp
  from h1 h2 h3
    fill_form_attempts_every_field
      [of flaky_page signup_inputs "map_of regular_user_data" plain_login_form 1
          "FieldError ''confirm_password'' ''Timeout 30000ms exceeded''"]
  show ?thesis by blast
qed

text \<open>
  With a descriptor whose name is \<open>None\<close>: the read raises, and the record is the one
  of the outer handler.
\<close>

lemma fill_form_malformed_descriptor:
  "fill_form_intelligently flaky_page malformed_inputs (map_of regular_user_data) =
     \<lparr>fr_success = False, fr_filled_fields = [],
      fr_errors = [GeneralError (attribute_error PNone)]\<rparr>"
  by code_simp

section \<open>Trigger resolution\<close>

lemma click_elements_find:
  "click_elements j els =
     (case find (\<lambda>(k, el). click_element el \<noteq> None) (List.enumerate j els) of
        None \<Rightarrow> None
      | Some (k, el) \<Rightarrow> Some (k, the (click_element el)))"
  by (induction els arbitrary: j) (auto split: option.splits)

lemma find_append:
  "find P (xs @ ys) = (case find P xs of None \<Rightarrow> find P ys | Some x \<Rightarrow> Some x)"
  by (induction xs) auto

lemma find_map_image:
  "find P (map f xs) = map_option f (find (\<lambda>x. P (f x)) xs)"
  by (induction xs) auto

lemma candidates_Cons:
  "candidates page i (selector # rest) =
     (case page i selector of None \<Rightarrow> []
      | Some elements \<Rightarrow> map (\<lambda>(j, el). (selector, j, el)) (List.enumerate 0 elements))
     @ candidates page (Suc i) rest"
  by (simp add: candidates_def)

lemma click_selectors_find:
  "click_selectors page i selectors =
     (case find (\<lambda>(selector, j, el). click_element el \<noteq> None) (candidates page i selectors) of
        None \<Rightarrow> None
      | Some (selector, j, el) \<Rightarrow> Some (selector, j, the (click_element el)))"
proof (induction selectors arbitrary: i)
  case Nil
  show ?case by (simp add: candidates_def)
next
  case (Cons selector rest)
  show ?case
  proof (cases "page i selector")
    case None
    then show ?thesis
      using Cons.IH[of "Suc i"] by (simp add: candidates_Cons)
  next
    case (Some els)
    then show ?thesis
      using Cons.IH[of "Suc i"]
      by (simp add: candidates_Cons find_append find_map_image click_elements_find
          case_prod_unfold split: option.splits)
  qed
qed

lemma visible_after_retry_iff:
  "visible_after_retry el v
     \<longleftrightarrow> v \<or> (scroll_into_view el \<and> is_visible_after_scroll el = Some True)"
  by (auto simp: visible_after_retry_def split: option.splits)

lemma click_element_iff:
  "click_element el = Some s \<longleftrightarrow>
     (\<exists>v. is_visible el = Some v
        \<and> ((s = Normal \<and> is_enabled el = Some True
              \<and> (v \<or> (scroll_into_view el \<and> is_visible_after_scroll el = Some True))
              \<and> click el)
           \<or> (s = Forced \<and> is_enabled el = Some True
               \<and> \<not> (v \<or> (scroll_into_view el \<and> is_visible_after_scroll el = Some True))
               \<and> click_force el)
           \<or> (s = Scripted \<and> is_enabled el = Some False \<and> evaluate_click el)))"
  unfolding visible_after_retry_iff[symmetric]
  by (auto simp: click_element_def Let_def split: option.splits if_splits)

lemma find_None_candidates:
  "find (\<lambda>(selector, j, el). click_element el \<noteq> None) cs = None
     \<longleftrightarrow> (\<forall>(selector, j, el) \<in> set cs. click_element el = None)"
  by (auto simp: find_None_iff)

text \<open>
  C5. An element is clicked with success by strategy \<open>s\<close> exactly when its state selects
  \<open>s\<close> and that click goes through: normal for an enabled element that is visible,
  either at the first query or at the one query made after a successful scroll into view;
  forced for an enabled element that is invisible at the first query and not seen visible
  after the scroll; scripted for an element that is not enabled. In particular an enabled
  element that is invisible at first and visible after the scroll gets the normal click,
  and an enabled element that stays invisible gets the forced click. The search returns
  the first element, in the order of selectors and elements, whose click succeeds, and it
  fails exactly when no element of any selector has a successful click.
\<close>

theorem click_strategy_escalation:
  "(click_element el = Some s \<longleftrightarrow>
      (\<exists>v. is_visible el = Some v
         \<and> ((s = Normal \<and> is_enabled el = Some True
               \<and> (v \<or> (scroll_into_view el \<and> is_visible_after_scroll el = Some True))
               \<and> click el)
            \<or> (s = Forced \<and> is_enabled el = Some True
                \<and> \<not> (v \<or> (scroll_into_view el \<and> is_visible_after_scroll el = Some True))
                \<and> click_force el)
            \<or> (s = Scripted \<and> is_enabled el = Some False \<and> evaluate_click el))))
   \<and> (is_visible el = Some False \<and> scroll_into_view el
        \<and> is_visible_after_scroll el = Some True \<and> is_enabled el = Some True \<and> click el
      \<longrightarrow> click_element el = Some Normal)
   \<and> (is_visible el = Some False
        \<and> \<not> (scroll_into_view el \<and> is_visible_after_scroll el = Some True)
        \<and> is_enabled el = Some True \<and> click_force el
      \<longrightarrow> click_element el = Some Forced)
   \<and> click_selectors page 0 selectors =
       (case find (\<lambda>(selector, j, el). click_element el \<noteq> None) (candidates page 0 selectors) of
          None \<Rightarrow> None
        | Some (selector, j, el) \<Rightarrow> Some (selector, j, the (click_element el)))
   \<and> (click_selectors page 0 selectors = None \<longleftrightarrow>
        (\<forall>(selector, j, el) \<in> set (candidates page 0 selectors). click_element el = None))"
proof -
  have "click_selectors page 0 selectors = None \<longleftrightarrow>
        find (\<lambda>(selector, j, el). click_element el \<noteq> None) (candidates page 0 selectors) = None"
    by (simp add: click_selectors_find split: option.splits)
  then have none: "click_selectors page 0 selectors = None \<longleftrightarrow>
        (\<forall>(selector, j, el) \<in> set (candidates page 0 selectors). click_element el = None)"
    by (simp only: find_None_candidates)
  have n: "is_visible el = Some False \<and> scroll_into_view el
        \<and> is_visible_after_scroll el = Some True \<and> is_enabled el = Some True \<and> click el
      \<longrightarrow> click_element el = Some Normal"
    by (auto simp: click_element_iff)
  have f: "is_visible el = Some False
        \<and> \<not> (scroll_into_view el \<and> is_visible_after_scroll el = Some True)
        \<and> is_enabled el = Some True \<and> click_force el
      \<longrightarrow> click_element el = Some Forced"
    by (auto simp: click_element_iff)
  from click_element_iff[of el s] n f click_selectors_find[of page 0 selectors] none
  show ?thesis by blast
qed

theorem click_strategy_escalation_witness:
  "is_visible revealed_button = Some False \<and> scroll_into_view revealed_button
   \<and> is_visible_after_scroll revealed_button = Some True
   \<and> is_enabled revealed_button = Some True \<and> click revealed_button
   \<and> click_element revealed_button = Some Normal
   \<and> click_element hidden_enabled_button = Some Forced
   \<and> click_selectors modal_page 0 (trigger_selectors ''Sign up'')
       = Some (trigger_selectors ''Sign up'' ! 1, 1, Forced)"
proof -
  have st: "is_visible revealed_button = Some False" "scroll_into_view revealed_button"
    "is_visible_after_scroll revealed_button = Some True"
    "is_enabled revealed_button = Some True" "click revealed_button"
    by (simp_all add: revealed_button_def)
  have h: "click_element hidden_enabled_button = Some Forced" by code_simp
  have r: "click_selectors modal_page 0 (trigger_selectors ''Sign up'')
             = Some (trigger_selectors ''Sign up'' ! 1, 1, Forced)" by code_simp
  from st click_strategy_escalation
         [of revealed_button Normal modal_page "trigger_selectors ''Sign up''"]
  have "click_element revealed_button = Some Normal" by blast
  with st h r show ?thesis by blast
qed

section \<open>Security findings\<close>




section \<open>The depth of a run\<close>

lemma get_exploration_depth_range:
  "get_exploration_depth events = Returned d \<Longrightarrow> 1 \<le> d \<and> d \<le> 5"
  by (induction events rule: get_exploration_depth.induct)
     (auto simp: Let_def split: if_splits option.splits)

text \<open>
  C7, as amended. The depth prompt of the demo returns only depths from 1 to 5: an entry
  that reads as an integer inside the range is returned, and one outside the range is
  refused, the prompt going on to the next entry.
\<close>

theorem prompt_depth_in_range:
  "(get_exploration_depth events = Returned d \<longrightarrow> 1 \<le> d \<and> d \<le> 5)
   \<and> (strip entry \<noteq> [] \<and> py_parse_int (strip entry) = Some n \<longrightarrow>
        get_exploration_depth (Line entry # rest)
          = (if 1 \<le> n \<and> n \<le> 5 then Returned n else get_exploration_depth rest))"
  using get_exploration_depth_range[of events d] by (simp add: Let_def)

theorem prompt_depth_in_range_witness:
  "get_exploration_depth [Line ''7'', Line '' 4 ''] = Returned 4
   \<and> strip ''7'' \<noteq> [] \<and> py_parse_int (strip ''7'') = Some 7
   \<and> get_exploration_depth (Line ''7'' # [Line '' 4 '']) = get_exploration_depth [Line '' 4 '']"
proof -
  have h1: "get_exploration_depth [Line ''7'', Line '' 4 ''] = Returned 4" by code_simp
  have h2: "strip ''7'' \<noteq> []" by code_simp
  have h3: "py_parse_int (strip ''7'') = Some 7" by code_simp
  from h2 h3 prompt_depth_in_range
               [of "[Line ''7'', Line '' 4 '']" 4 "''7''" 7 "[Line '' 4 '']"]
  have "get_exploration_depth (Line ''7'' # [Line '' 4 '']) = get_exploration_depth [Line '' 4 '']"
    by simp
  with h1 h2 h3 show ?thesis by blast
qed

section \<open>The report of a run\<close>

lemma foldl_registration_keeps:
  "accessibility_issues
     (foldl (\<lambda>report persona.
               case f persona of
                 Some registration_result \<Rightarrow>
                   report\<lparr>registration_attempts := registration_attempts report @ [registration_result]\<rparr>
               | None \<Rightarrow> report) r ps) = accessibility_issues r
   \<and> auth_forms_discovered
     (foldl (\<lambda>report persona.
               case f persona of
                 Some registration_result \<Rightarrow>
                   report\<lparr>registration_attempts := registration_attempts report @ [registration_result]\<rparr>
               | None \<Rightarrow> report) r ps) = auth_forms_discovered r
   \<and> exploration_depth
     (foldl (\<lambda>report persona.
               case f persona of
                 Some registration_result \<Rightarrow>
                   report\<lparr>registration_attempts := registration_attempts report @ [registration_result]\<rparr>
               | None \<Rightarrow> report) r ps) = exploration_depth r"
  by (induction ps arbitrary: r) (auto split: option.splits)

lemma quiet_site_run:
  "\<exists>report. deep_explore_website quiet_site [regular_user] ''https://example.com'' d = Inr report"
  by (simp add: deep_explore_website_def quiet_site_def analyze_page_deeply_def Let_def
      attempt_registration_def discover_auth_forms_def empty_page_def)


text \<open>
  C7 as stated fails: \<open>deep_explore_website\<close> has no range check, and a run with depth 7
  goes through all its stages and returns a report of depth 7.
\<close>

theorem run_with_depth_7_counterexample:
  "map_sum id exploration_depth
     (deep_explore_website quiet_site [regular_user] ''https://example.com'' 7) = Inr 7"
  by (simp add: deep_explore_website_def quiet_site_def analyze_page_deeply_def Let_def
      attempt_registration_def discover_auth_forms_def empty_page_def)



text \<open>
  C10. In the report of every run, \<open>accessibility_issues\<close> is the empty list: it is
  set empty at the start and no stage writes to it.
\<close>

theorem accessibility_issues_empty:
  "deep_explore_website w personas u d = Inr report \<Longrightarrow> accessibility_issues report = []"
  by (auto simp: deep_explore_website_def Let_def foldl_registration_keeps
      split: option.splits sum.splits)

theorem accessibility_issues_empty_witness:
  "\<exists>report. deep_explore_website quiet_site [regular_user] ''https://example.com'' 3 = Inr report
     \<and> accessibility_issues report = []"
proof -
  from quiet_site_run obtain report where
    run: "deep_explore_website quiet_site [regular_user] ''https://example.com'' 3 = Inr report"
    by blast
  from accessibility_issues_empty [OF run] run show ?thesis by blast
qed

end
